theory Spec2Isabelle
  imports Complex_Main "HOL-Library.Multiset"
begin

section \<open>The warehouse stock ledger of \<^verbatim>\<open>server.js\<close>\<close>

text \<open>
  The REST backend keeps two tables that matter here, \<^verbatim>\<open>users\<close> and
  \<^verbatim>\<open>stockMovements\<close>, in SQLite. A table is modelled as the list of its rows in
  insertion order, a request body as a record of optional fields (a JSON key that is
  absent is \<open>None\<close>), and a handler as a function from the database and the request to
  the response and the new database.

  Conventions of the model:
  \<^item> JavaScript numbers that hold weights (SQLite \<^verbatim>\<open>REAL\<close>) are exact rationals: the
    rounding of IEEE doubles is not modelled. Identifiers and box counts (SQLite
    \<^verbatim>\<open>INTEGER\<close>) are integers.
  \<^item> Strings are compared as the source compares them (\<^verbatim>\<open>===\<close>, SQL \<^verbatim>\<open>=\<close> on a
    \<^verbatim>\<open>TEXT\<close> column with the default binary collation): exact equality.
  \<^item> The store itself never fails: the \<^verbatim>\<open>500\<close> answers for a broken database
    connection are outside the model. The one store error that the handlers can
    provoke by their own statements, the \<^verbatim>\<open>UNIQUE\<close> constraint on
    \<^verbatim>\<open>users.username\<close>, is modelled. The source never switches foreign key
    enforcement on, so SQLite does not check the \<^verbatim>\<open>FOREIGN KEY\<close> clauses.
  \<^item> Each handler runs alone: requests are executed one after the other.
\<close>

subsection \<open>JavaScript truthiness\<close>

text \<open>\<^verbatim>\<open>!x\<close> for a number or a missing field: \<^verbatim>\<open>undefined\<close>, \<^verbatim>\<open>null\<close> and \<^verbatim>\<open>0\<close> are falsy.\<close>

definition truthy_num :: "'a::zero option \<Rightarrow> bool" where
  "truthy_num x = (case x of None \<Rightarrow> False | Some v \<Rightarrow> v \<noteq> 0)"

text \<open>\<^verbatim>\<open>x || 0\<close> for a number or a missing field.\<close>

definition or0 :: "'a::zero option \<Rightarrow> 'a" where
  "or0 x = (if truthy_num x then (case x of Some v \<Rightarrow> v | None \<Rightarrow> 0) else 0)"

text \<open>
  \<^verbatim>\<open>s.trim()\<close>, on the ASCII white space characters (space, tab, line feed, vertical
  tab, form feed, carriage return). JavaScript also strips the Unicode space
  characters, which are several bytes each in a byte string.
\<close>

definition is_space :: "char \<Rightarrow> bool" where
  "is_space c = (c \<in> set [CHR '' '', CHR 0x09, CHR 0x0A, CHR 0x0B, CHR 0x0C, CHR 0x0D])"

definition trim :: "string \<Rightarrow> string" where
  "trim s = rev (dropWhile is_space (rev (dropWhile is_space s)))"

subsection \<open>Tables\<close>

text \<open>A row of \<^verbatim>\<open>stockMovements\<close>; a nullable column is an option.\<close>

record movement =
  mv_id :: int
  mv_clientId :: int
  mv_type :: string
  mv_product :: string
  mv_totalWeight :: rat
  mv_plasticBoxCount :: "int option"
  mv_plasticBoxWeight :: "rat option"
  mv_woodBoxCount :: "int option"
  mv_woodBoxWeight :: "rat option"
  mv_productWeight :: rat
  mv_date :: string
  mv_recordedByUserId :: int
  mv_comment :: "string option"
  mv_farmerComment :: "string option"
  mv_isCommentRead :: "bool option"

text \<open>A row of \<^verbatim>\<open>users\<close>.\<close>

record user =
  us_id :: int
  us_username :: string
  us_name :: string
  us_role :: string
  us_status :: string
  us_password :: string
  us_clientId :: "int option"

text \<open>
  The database: the two tables, and for each the largest row id handed out so far
  (\<^verbatim>\<open>AUTOINCREMENT\<close> keeps it in \<^verbatim>\<open>sqlite_sequence\<close>; the next row gets one more).
\<close>

record db =
  users :: "user list"
  stockMovements :: "movement list"
  users_seq :: int
  stockMovements_seq :: int

definition empty_db :: db where
  "empty_db = \<lparr>users = [], stockMovements = [], users_seq = 0, stockMovements_seq = 0\<rparr>"

subsection \<open>Responses\<close>

text \<open>
  The error answers of the handlers modelled here. The two numbers of an
  insufficient stock error are the ones its message prints: the available amount
  first, the requested amount second (the weights through \<^verbatim>\<open>toFixed(2)\<close>).
\<close>

datatype api_error =
    MissingMovementFields
  | NegativeNetWeight
  | InsufficientProductStock rat rat
  | InsufficientPlasticBoxes int int
  | InsufficientWoodBoxes int int
  | NoFieldsToUpdate
  | MovementNotFound
  | UserNotFound
  | CannotDeleteAdmin
  | DatabaseError

fun status_of :: "api_error \<Rightarrow> nat" where
  "status_of MissingMovementFields = 400"
| "status_of NegativeNetWeight = 400"
| "status_of (InsufficientProductStock available requested) = 400"
| "status_of (InsufficientPlasticBoxes available requested) = 400"
| "status_of (InsufficientWoodBoxes available requested) = 400"
| "status_of NoFieldsToUpdate = 400"
| "status_of MovementNotFound = 404"
| "status_of UserNotFound = 404"
| "status_of CannotDeleteAdmin = 403"
| "status_of DatabaseError = 500"


text \<open>The status of an answer: \<open>ok\<close> is the status the handler sends on success.\<close>

definition http_status :: "nat \<Rightarrow> api_error + 'a \<Rightarrow> nat" where
  "http_status ok r = (case r of Inl e \<Rightarrow> status_of e | Inr x \<Rightarrow> ok)"

subsection \<open>The balance calculator\<close>

record stock_summary =
  st_totalWeight :: rat
  st_productWeight :: rat
  st_plasticBoxes :: int
  st_woodBoxes :: int

text \<open>\<^verbatim>\<open>movement.type === 'in' ? 1 : -1\<close>\<close>

definition multiplier :: "string \<Rightarrow> int" where
  "multiplier t = (if t = ''in'' then 1 else -1)"

text \<open>The body of the \<^verbatim>\<open>forEach\<close> of \<^verbatim>\<open>getClientStockSummary\<close>.\<close>

definition add_movement :: "movement \<Rightarrow> stock_summary \<Rightarrow> stock_summary" where
  "add_movement m summary =
    (let s1 = summary\<lparr>st_totalWeight :=
                st_totalWeight summary + mv_totalWeight m * of_int (multiplier (mv_type m))\<rparr>;
         s2 = s1\<lparr>st_productWeight :=
                st_productWeight s1 + mv_productWeight m * of_int (multiplier (mv_type m))\<rparr>;
         s3 = (case mv_plasticBoxCount m of
                 None \<Rightarrow> s2
               | Some n \<Rightarrow>
                   if n \<noteq> 0
                   then s2\<lparr>st_plasticBoxes := st_plasticBoxes s2 + n * multiplier (mv_type m)\<rparr>
                   else s2)
     in case mv_woodBoxCount m of
          None \<Rightarrow> s3
        | Some n \<Rightarrow>
            if n \<noteq> 0
            then s3\<lparr>st_woodBoxes := st_woodBoxes s3 + n * multiplier (mv_type m)\<rparr>
            else s3)"

definition getClientStockSummary :: "db \<Rightarrow> int \<Rightarrow> stock_summary" where
  "getClientStockSummary d clientId =
    fold add_movement (filter (\<lambda>m. mv_clientId m = clientId) (stockMovements d))
      \<lparr>st_totalWeight = 0, st_productWeight = 0, st_plasticBoxes = 0, st_woodBoxes = 0\<rparr>"

definition getProductStockForClient :: "db \<Rightarrow> int \<Rightarrow> string \<Rightarrow> rat" where
  "getProductStockForClient d clientId product =
    foldl (\<lambda>acc m. acc + mv_productWeight m * of_int (multiplier (mv_type m))) 0
      (filter (\<lambda>m. mv_clientId m = clientId \<and> mv_product m = product) (stockMovements d))"

subsection \<open>\<^verbatim>\<open>POST /api/movements\<close>\<close>

record movement_body =
  rq_clientId :: "int option"
  rq_type :: "string option"
  rq_product :: "string option"
  rq_totalWeight :: "rat option"
  rq_plasticBoxCount :: "int option"
  rq_plasticBoxWeight :: "rat option"
  rq_woodBoxCount :: "int option"
  rq_woodBoxWeight :: "rat option"
  rq_recordedByUserId :: "int option"
  rq_comment :: "string option"

text \<open>
  \<^verbatim>\<open>!clientId || !type || !product || !totalWeight || !recordedByUserId\<close>: the five
  required fields when all are truthy, \<open>None\<close> when one is missing or falsy.
\<close>

definition required_fields :: "movement_body \<Rightarrow> (int \<times> string \<times> string \<times> rat \<times> int) option" where
  "required_fields b =
    (case (rq_clientId b, rq_type b, rq_product b, rq_totalWeight b, rq_recordedByUserId b) of
       (Some clientId, Some type, Some product, Some totalWeight, Some recordedByUserId) \<Rightarrow>
         if clientId = 0 \<or> type = [] \<or> product = [] \<or> totalWeight = 0 \<or> recordedByUserId = 0
         then None
         else Some (clientId, type, product, totalWeight, recordedByUserId)
     | _ \<Rightarrow> None)"

text \<open>The row the handler inserts; \<open>date\<close> is the server's date at the request.\<close>

definition new_movement ::
  "int \<Rightarrow> string \<Rightarrow> movement_body \<Rightarrow> int \<Rightarrow> string \<Rightarrow> string \<Rightarrow> rat \<Rightarrow> int \<Rightarrow> rat \<Rightarrow> movement" where
  "new_movement lastID date b clientId type product totalWeight recordedByUserId pWeight =
    (let pBoxCount = or0 (rq_plasticBoxCount b);
         pBoxWeight = or0 (rq_plasticBoxWeight b);
         wBoxCount = or0 (rq_woodBoxCount b);
         wBoxWeight = or0 (rq_woodBoxWeight b)
     in \<lparr>mv_id = lastID,
         mv_clientId = clientId,
         mv_type = type,
         mv_product = product,
         mv_totalWeight = totalWeight,
         mv_plasticBoxCount = (if pBoxCount > 0 then Some pBoxCount else None),
         mv_plasticBoxWeight = (if pBoxCount > 0 then Some pBoxWeight else None),
         mv_woodBoxCount = (if wBoxCount > 0 then Some wBoxCount else None),
         mv_woodBoxWeight = (if wBoxCount > 0 then Some wBoxWeight else None),
         mv_productWeight = pWeight,
         mv_date = date,
         mv_recordedByUserId = recordedByUserId,
         mv_comment = (case rq_comment b of
                         None \<Rightarrow> None
                       | Some c \<Rightarrow> if trim c \<noteq> [] then Some (trim c) else None),
         mv_farmerComment = None,
         mv_isCommentRead = None\<rparr>)"

definition insert_movement :: "db \<Rightarrow> movement \<Rightarrow> db" where
  "insert_movement d row =
    d\<lparr>stockMovements := stockMovements d @ [row], stockMovements_seq := mv_id row\<rparr>"

text \<open>The handler: the answer (\<open>Inr\<close> the created row) and the database after it.\<close>

definition post_movement :: "string \<Rightarrow> db \<Rightarrow> movement_body \<Rightarrow> (api_error + movement) \<times> db" where
  "post_movement date d b =
    (case required_fields b of
       None \<Rightarrow> (Inl MissingMovementFields, d)
     | Some (clientId, type, product, totalWeight, recordedByUserId) \<Rightarrow>
        (let pBoxCount = or0 (rq_plasticBoxCount b);
             pBoxWeight = or0 (rq_plasticBoxWeight b);
             wBoxCount = or0 (rq_woodBoxCount b);
             wBoxWeight = or0 (rq_woodBoxWeight b);
             pWeight = totalWeight - of_int pBoxCount * pBoxWeight - of_int wBoxCount * wBoxWeight;
             row = new_movement (stockMovements_seq d + 1) date b
                     clientId type product totalWeight recordedByUserId pWeight
         in if pWeight < 0 then (Inl NegativeNetWeight, d)
            else if type = ''out'' then
              (let availableProductStock = getProductStockForClient d clientId product;
                   clientStock = getClientStockSummary d clientId
               in if pWeight > availableProductStock
                  then (Inl (InsufficientProductStock availableProductStock pWeight), d)
                  else if pBoxCount > st_plasticBoxes clientStock
                  then (Inl (InsufficientPlasticBoxes (st_plasticBoxes clientStock) pBoxCount), d)
                  else if wBoxCount > st_woodBoxes clientStock
                  then (Inl (InsufficientWoodBoxes (st_woodBoxes clientStock) wBoxCount), d)
                  else (Inr row, insert_movement d row))
            else (Inr row, insert_movement d row)))"


text \<open>Requests executed one after the other, each on the database the last one left.\<close>

fun post_movements :: "db \<Rightarrow> (string \<times> movement_body) list \<Rightarrow> db" where
  "post_movements d [] = d"
| "post_movements d ((date, b) # rest) = post_movements (snd (post_movement date d b)) rest"

subsection \<open>\<^verbatim>\<open>PATCH /api/movements/:id\<close>\<close>

text \<open>
  The body: \<open>pb_farmerComment\<close> is \<open>Some s\<close> when \<^verbatim>\<open>typeof farmerComment === 'string'\<close>,
  \<open>pb_isCommentRead\<close> is \<open>Some b\<close> when \<^verbatim>\<open>typeof isCommentRead === 'boolean'\<close>; a key
  that is absent or holds a value of another type is \<open>None\<close>.
\<close>

record patch_body =
  pb_farmerComment :: "string option"
  pb_isCommentRead :: "bool option"

text \<open>One assignment \<^verbatim>\<open>column = ?\<close> of the \<^verbatim>\<open>SET\<close> list, with its parameter.\<close>

datatype movement_update = Set_farmerComment string | Set_isCommentRead bool

text \<open>The \<^verbatim>\<open>updates\<close> and \<^verbatim>\<open>params\<close> arrays the handler builds, in the order of its pushes.\<close>

definition patch_updates :: "patch_body \<Rightarrow> movement_update list" where
  "patch_updates body =
    (case pb_farmerComment body of
       Some farmerComment \<Rightarrow> [Set_farmerComment farmerComment, Set_isCommentRead False]
     | None \<Rightarrow> [])
    @ (case pb_isCommentRead body of
         Some isCommentRead \<Rightarrow> [Set_isCommentRead isCommentRead]
       | None \<Rightarrow> [])"

fun apply_movement_update :: "movement_update \<Rightarrow> movement \<Rightarrow> movement" where
  "apply_movement_update (Set_farmerComment s) m = m\<lparr>mv_farmerComment := Some s\<rparr>"
| "apply_movement_update (Set_isCommentRead r) m = m\<lparr>mv_isCommentRead := Some r\<rparr>"

text \<open>
  \<^verbatim>\<open>UPDATE stockMovements SET ... WHERE id = ?\<close>. When a column is assigned more than
  once in a \<^verbatim>\<open>SET\<close> list, SQLite keeps the rightmost assignment: the assignments
  are applied from left to right, a later one overwriting an earlier one. The
  second component is \<^verbatim>\<open>this.changes\<close>, the number of rows matched.
\<close>

definition update_movements :: "movement_update list \<Rightarrow> int \<Rightarrow> movement list \<Rightarrow> movement list \<times> nat" where
  "update_movements updates movementId rows =
    (map (\<lambda>m. if mv_id m = movementId then fold apply_movement_update updates m else m) rows,
     length (filter (\<lambda>m. mv_id m = movementId) rows))"

text \<open>\<^verbatim>\<open>{ ...row, isCommentRead: !!row.isCommentRead }\<close>\<close>

definition with_bool_isCommentRead :: "movement \<Rightarrow> movement" where
  "with_bool_isCommentRead row =
    row\<lparr>mv_isCommentRead := Some (case mv_isCommentRead row of Some r \<Rightarrow> r | None \<Rightarrow> False)\<rparr>"

text \<open>
  The handler. After \<^verbatim>\<open>this.changes > 0\<close> the row read back
  exists; the branch for a missing row stands for the exception the source would
  throw on \<^verbatim>\<open>row.isCommentRead\<close>.
\<close>

definition patch_movement :: "db \<Rightarrow> int \<Rightarrow> patch_body \<Rightarrow> (api_error + movement) \<times> db" where
  "patch_movement d movementId body =
    (let updates = patch_updates body in
     if length updates = 0 then (Inl NoFieldsToUpdate, d)
     else
       (let (rows, changes) = update_movements updates movementId (stockMovements d);
            d' = d\<lparr>stockMovements := rows\<rparr>
        in if changes = 0 then (Inl MovementNotFound, d)
           else (case find (\<lambda>m. mv_id m = movementId) rows of
                   Some row \<Rightarrow> (Inr (with_bool_isCommentRead row), d')
                 | None \<Rightarrow> (Inl DatabaseError, d'))))"

text \<open>\<^verbatim>\<open>res.json({ ...row, ... })\<close>: status 200.\<close>

definition patch_movement_status :: "api_error + movement \<Rightarrow> nat" where
  "patch_movement_status r = http_status 200 r"

subsection \<open>\<^verbatim>\<open>PUT /api/users/:id\<close> and \<^verbatim>\<open>DELETE /api/users/:id\<close>\<close>

record user_body =
  ub_name :: "string option"
  ub_username :: "string option"
  ub_role :: "string option"
  ub_clientId :: "int option"
  ub_password :: "string option"
  ub_status :: "string option"

datatype user_update =
    Set_name string
  | Set_username string
  | Set_role string
  | Set_status string
  | Set_clientId "int option"
  | Set_password string

text \<open>
  The \<^verbatim>\<open>updates\<close> and \<^verbatim>\<open>params\<close> arrays of the handler. \<open>hash\<close> stands for
  \<^verbatim>\<open>bcrypt.hash(password, saltRounds)\<close>, whose salt is random. The push of
  \<^verbatim>\<open>clientId = ?\<close> is under no condition; its parameter is
  \<^verbatim>\<open>role === 'Agriculteur' ? clientId : null\<close>, and an \<^verbatim>\<open>undefined\<close> parameter is stored
  as \<^verbatim>\<open>NULL\<close>.
\<close>

definition put_updates :: "(string \<Rightarrow> string) \<Rightarrow> user_body \<Rightarrow> user_update list" where
  "put_updates hash body =
    (case ub_name body of
       Some name \<Rightarrow> if name = [] then [] else [Set_name name]
     | None \<Rightarrow> [])
    @ (case ub_username body of
         Some username \<Rightarrow> if username = [] then [] else [Set_username username]
       | None \<Rightarrow> [])
    @ (case ub_role body of
         Some role \<Rightarrow> if role = [] then [] else [Set_role role]
       | None \<Rightarrow> [])
    @ (case ub_status body of
         Some status \<Rightarrow> if status = [] then [] else [Set_status status]
       | None \<Rightarrow> [])
    @ [Set_clientId (if ub_role body = Some ''Agriculteur'' then ub_clientId body else None)]
    @ (case ub_password body of
         Some password \<Rightarrow> if password = [] then [] else [Set_password (hash password)]
       | None \<Rightarrow> [])"

fun apply_user_update :: "user_update \<Rightarrow> user \<Rightarrow> user" where
  "apply_user_update (Set_name s) u = u\<lparr>us_name := s\<rparr>"
| "apply_user_update (Set_username s) u = u\<lparr>us_username := s\<rparr>"
| "apply_user_update (Set_role s) u = u\<lparr>us_role := s\<rparr>"
| "apply_user_update (Set_status s) u = u\<lparr>us_status := s\<rparr>"
| "apply_user_update (Set_clientId c) u = u\<lparr>us_clientId := c\<rparr>"
| "apply_user_update (Set_password s) u = u\<lparr>us_password := s\<rparr>"

text \<open>
  \<^verbatim>\<open>UPDATE users SET ... WHERE id = ?\<close>: \<open>None\<close> when the statement fails on
  \<^verbatim>\<open>username TEXT NOT NULL UNIQUE\<close> (a row that is updated would carry the username of
  another row), else the new rows and \<^verbatim>\<open>this.changes\<close>.
\<close>

definition update_users :: "user_update list \<Rightarrow> int \<Rightarrow> user list \<Rightarrow> (user list \<times> nat) option" where
  "update_users updates userId rows =
    (let rows' = map (\<lambda>u. if us_id u = userId then fold apply_user_update updates u else u) rows
     in if distinct (map us_username rows')
        then Some (rows', length (filter (\<lambda>u. us_id u = userId) rows))
        else None)"

text \<open>
  The handler reads back every column but the password: in the answer the password
  field is blank.
\<close>

definition without_password :: "user \<Rightarrow> user" where
  "without_password u = u\<lparr>us_password := []\<rparr>"

text \<open>The handler.\<close>

definition put_user :: "(string \<Rightarrow> string) \<Rightarrow> db \<Rightarrow> int \<Rightarrow> user_body \<Rightarrow> (api_error + user) \<times> db" where
  "put_user hash d userId body =
    (let updates = put_updates hash body in
     if length updates = 0 then (Inl NoFieldsToUpdate, d)
     else (case update_users updates userId (users d) of
             None \<Rightarrow> (Inl DatabaseError, d)
           | Some (rows, changes) \<Rightarrow>
               if changes = 0 then (Inl UserNotFound, d)
               else (case find (\<lambda>u. us_id u = userId) rows of
                       Some row \<Rightarrow> (Inr (without_password row), d\<lparr>users := rows\<rparr>)
                     | None \<Rightarrow> (Inl DatabaseError, d\<lparr>users := rows\<rparr>))))"

text \<open>\<^verbatim>\<open>res.json(row)\<close>: status 200.\<close>

definition put_user_status :: "api_error + user \<Rightarrow> nat" where
  "put_user_status r = http_status 200 r"

text \<open>
  The handler of \<^verbatim>\<open>DELETE\<close>. It reads the path parameter
  and the \<^verbatim>\<open>users\<close> table, and nothing of the caller.
\<close>

definition delete_user :: "db \<Rightarrow> int \<Rightarrow> (api_error + unit) \<times> db" where
  "delete_user d userId =
    (case find (\<lambda>u. us_id u = userId) (users d) of
       None \<Rightarrow> (Inl UserNotFound, d)
     | Some user \<Rightarrow>
         if us_role user = ''Admin'' then (Inl CannotDeleteAdmin, d)
         else (Inr (), d\<lparr>users := filter (\<lambda>u. us_id u \<noteq> userId) (users d)\<rparr>))"

text \<open>\<^verbatim>\<open>res.status(204).send()\<close>\<close>

definition delete_user_status :: "api_error + unit \<Rightarrow> nat" where
  "delete_user_status r = http_status 204 r"

subsection \<open>The specification's words\<close>

text \<open>A missing number counts as 0.\<close>

definition value_or_zero :: "'a::zero option \<Rightarrow> 'a" where
  "value_or_zero x = (case x of None \<Rightarrow> 0 | Some v \<Rightarrow> v)"

text \<open>
  The derived net weight of a request, as the data model states it: the total weight
  minus the weight of the plastic boxes minus the weight of the wood boxes.
\<close>

definition derived_productWeight :: "movement_body \<Rightarrow> rat" where
  "derived_productWeight b =
     value_or_zero (rq_totalWeight b)
     - of_int (value_or_zero (rq_plasticBoxCount b)) * value_or_zero (rq_plasticBoxWeight b)
     - of_int (value_or_zero (rq_woodBoxCount b)) * value_or_zero (rq_woodBoxWeight b)"





subsection \<open>Example requests and ledgers\<close>

text \<open>
  The example of the specification: a deposit of 100 kg gross in two plastic boxes of
  5 kg each, that is 90 kg net.
\<close>

definition deposit_100 :: movement_body where
  "deposit_100 = \<lparr>rq_clientId = Some 1, rq_type = Some ''in'', rq_product = Some ''olives'',
     rq_totalWeight = Some 100, rq_plasticBoxCount = Some 2, rq_plasticBoxWeight = Some 5,
     rq_woodBoxCount = None, rq_woodBoxWeight = None, rq_recordedByUserId = Some 7,
     rq_comment = None\<rparr>"

definition after_deposit :: db where
  "after_deposit = post_movements empty_db [(''2024-05-01'', deposit_100)]"






text \<open>A patch that writes a comment and marks it read in one request.\<close>

definition comment_and_read :: patch_body where
  "comment_and_read = \<lparr>pb_farmerComment = Some ''short weight'', pb_isCommentRead = Some True\<rparr>"

text \<open>Two users: the administrator, and a farmer linked to client 3.\<close>

definition admin_user :: user where
  "admin_user = \<lparr>us_id = 1, us_username = ''admin'', us_name = ''Alice Durand'',
     us_role = ''Admin'', us_status = ''Active'', us_password = ''$2b$10$hashA'',
     us_clientId = None\<rparr>"

definition farmer_user :: user where
  "farmer_user = \<lparr>us_id = 2, us_username = ''farid'', us_name = ''Farid'',
     us_role = ''Agriculteur'', us_status = ''Active'', us_password = ''$2b$10$hashF'',
     us_clientId = Some 3\<rparr>"

definition two_users :: db where
  "two_users = \<lparr>users = [admin_user, farmer_user], stockMovements = [],
     users_seq = 2, stockMovements_seq = 0\<rparr>"

text \<open>The body the user list sends to suspend an account: the status and nothing else.\<close>

definition suspend_body :: user_body where
  "suspend_body = \<lparr>ub_name = None, ub_username = None, ub_role = None, ub_clientId = None,
     ub_password = None, ub_status = Some ''Suspended''\<rparr>"

section \<open>Properties\<close>

subsection \<open>Auxiliary facts about the movement handler\<close>

lemmas handler_defs =
  post_movement_def required_fields_def or0_def truthy_num_def Let_def new_movement_def
  insert_movement_def empty_db_def getProductStockForClient_def getClientStockSummary_def
  add_movement_def multiplier_def derived_productWeight_def value_or_zero_def

lemma or0_eq: "or0 x = value_or_zero x"
  by (simp add: or0_def value_or_zero_def truthy_num_def split: option.splits)





lemma new_movement_fields [simp]:
  "mv_id (new_movement i date b c t p w u pw) = i"
  "mv_clientId (new_movement i date b c t p w u pw) = c"
  "mv_type (new_movement i date b c t p w u pw) = t"
  "mv_product (new_movement i date b c t p w u pw) = p"
  "mv_totalWeight (new_movement i date b c t p w u pw) = w"
  "mv_productWeight (new_movement i date b c t p w u pw) = pw"
  "mv_recordedByUserId (new_movement i date b c t p w u pw) = u"
  "mv_plasticBoxCount (new_movement i date b c t p w u pw) =
     (if value_or_zero (rq_plasticBoxCount b) > 0
      then Some (value_or_zero (rq_plasticBoxCount b)) else None)"
  "mv_woodBoxCount (new_movement i date b c t p w u pw) =
     (if value_or_zero (rq_woodBoxCount b) > 0
      then Some (value_or_zero (rq_woodBoxCount b)) else None)"
  by (simp_all add: new_movement_def Let_def or0_eq)


lemma after_deposit_rows:
  "after_deposit = \<lparr>users = [],
     stockMovements = [\<lparr>mv_id = 1, mv_clientId = 1, mv_type = ''in'', mv_product = ''olives'',
       mv_totalWeight = 100, mv_plasticBoxCount = Some 2, mv_plasticBoxWeight = Some 5,
       mv_woodBoxCount = None, mv_woodBoxWeight = None, mv_productWeight = 90,
       mv_date = ''2024-05-01'', mv_recordedByUserId = 7, mv_comment = None,
       mv_farmerComment = None, mv_isCommentRead = None\<rparr>],
     users_seq = 0, stockMovements_seq = 1\<rparr>"
  by (simp add: after_deposit_def deposit_100_def handler_defs)


subsection \<open>The derived net weight\<close>



subsection \<open>Required fields are tested by truthiness\<close>






subsection \<open>Deposits\<close>



subsection \<open>Withdrawals\<close>



subsection \<open>The balance calculator\<close>

lemma foldl_add_sum_list:
  fixes a :: "'a::comm_monoid_add"
  shows "foldl (\<lambda>acc m. acc + f m) a ms = a + sum_list (map f ms)"
  by (induction ms arbitrary: a) (simp_all add: add.assoc)






text \<open>
  With exact numbers a sum does not depend on the order of its terms, so in this model
  the product balance is the same for every permutation of the rows. (The source adds
  IEEE doubles, whose addition is not associative; the model says nothing about the
  rounding.)
\<close>

lemma product_stock_exact_permutation:
  assumes "mset (stockMovements d) = mset (stockMovements d')"
  shows "getProductStockForClient d c p = getProductStockForClient d' c p"
proof -
  let ?f = "\<lambda>m. mv_productWeight m * of_int (multiplier (mv_type m))"
  let ?P = "\<lambda>m. mv_clientId m = c \<and> mv_product m = p"
  have eq: "mset (map ?f (filter ?P (stockMovements d))) =
            mset (map ?f (filter ?P (stockMovements d')))"
    using assms by simp
  have "sum_list (map ?f (filter ?P (stockMovements d))) =
        sum_mset (mset (map ?f (filter ?P (stockMovements d))))"
    by (rule sum_mset_sum_list[symmetric])
  also have "\<dots> = sum_mset (mset (map ?f (filter ?P (stockMovements d'))))"
    by (simp only: eq)
  also have "\<dots> = sum_list (map ?f (filter ?P (stockMovements d')))"
    by (rule sum_mset_sum_list)
  finally show ?thesis
    by (simp add: getProductStockForClient_def foldl_add_sum_list)
qed

subsection \<open>Balances never go negative\<close>











subsection \<open>Farmer comments\<close>

lemma apply_movement_update_id [simp]: "mv_id (apply_movement_update x m) = mv_id m"
  by (cases x) simp_all

lemma fold_movement_update_id [simp]: "mv_id (fold apply_movement_update xs m) = mv_id m"
  by (induction xs arbitrary: m) simp_all

text \<open>The rows a patch leaves, and its answer: an error leaves the table as it was.\<close>

lemma patch_movement_rows:
  "stockMovements (snd (patch_movement d i body)) =
     map (\<lambda>m. if mv_id m = i then fold apply_movement_update (patch_updates body) m else m)
       (stockMovements d)"
proof (cases "patch_updates body = []")
  case True
  then show ?thesis by (simp add: patch_movement_def cong: if_cong)
next
  case updates: False
  show ?thesis
  proof (cases "\<exists>m\<in>set (stockMovements d). mv_id m = i")
    case True
    then have "filter (\<lambda>m. mv_id m = i) (stockMovements d) \<noteq> []"
      by (simp add: filter_empty_conv)
    with updates show ?thesis
      by (simp add: patch_movement_def update_movements_def Let_def split: option.splits)
  next
    case False
    then have "map (\<lambda>m. if mv_id m = i then fold apply_movement_update (patch_updates body) m else m)
         (stockMovements d) = stockMovements d"
      by (simp add: map_idI)
    with updates show ?thesis
      by (simp add: patch_movement_def update_movements_def Let_def split: option.splits)
  qed
qed

lemma patch_movement_found:
  assumes "m \<in> set (stockMovements d)" and "mv_id m = i" and "patch_updates body \<noteq> []"
  shows "\<not> isl (fst (patch_movement d i body))"
proof -
  let ?rows = "map (\<lambda>m. if mv_id m = i then fold apply_movement_update (patch_updates body) m else m)
       (stockMovements d)"
  from assms(1,2) have ne: "filter (\<lambda>m. mv_id m = i) (stockMovements d) \<noteq> []"
    by (auto simp: filter_empty_conv)
  from assms(1,2) have "fold apply_movement_update (patch_updates body) m \<in> set ?rows"
    by (auto simp: image_iff intro!: bexI[of _ m])
  then have "\<exists>x\<in>set ?rows. mv_id x = i"
    using assms(2) by (intro bexI[of _ "fold apply_movement_update (patch_updates body) m"]) simp_all
  then have "find (\<lambda>m. mv_id m = i) ?rows \<noteq> None"
    unfolding find_None_iff by blast
  with ne assms(3) show ?thesis
    by (auto simp: patch_movement_def update_movements_def Let_def split: option.splits)
qed

text \<open>A body with a comment and no read flag.\<close>

lemma patch_comment_alone:
  assumes "pb_farmerComment body = Some s" and "pb_isCommentRead body = None"
  shows "stockMovements (snd (patch_movement d i body)) =
     map (\<lambda>m. if mv_id m = i then m\<lparr>mv_farmerComment := Some s, mv_isCommentRead := Some False\<rparr> else m)
       (stockMovements d)"
  by (simp add: patch_movement_rows patch_updates_def assms)

text \<open>A body with the read flag alone.\<close>

lemma patch_read_alone:
  assumes "pb_farmerComment body = None" and "pb_isCommentRead body = Some r"
  shows "stockMovements (snd (patch_movement d i body)) =
     map (\<lambda>m. if mv_id m = i then m\<lparr>mv_isCommentRead := Some r\<rparr> else m) (stockMovements d)"
  by (simp add: patch_movement_rows patch_updates_def assms)

lemma patch_read_alone_idempotent:
  assumes "pb_farmerComment body = None" and "pb_isCommentRead body = Some r"
  shows "stockMovements (snd (patch_movement (snd (patch_movement d i body)) i body)) =
         stockMovements (snd (patch_movement d i body))"
  by (simp add: patch_read_alone[OF assms] comp_def cong: map_cong)

text \<open>
  Claim C7 at the input where the handler departs from it. The body
  \<open>comment_and_read\<close> holds a comment and \<^verbatim>\<open>isCommentRead: true\<close>. The handler pushes
  \<^verbatim>\<open>isCommentRead = ?\<close> twice, first with \<^verbatim>\<open>false\<close> for the new comment, then with the
  value of the body, and the second assignment wins: the comment is stored and the
  row is marked read.
\<close>

theorem patch_comment_with_read_flag_stays_read:
  "patch_movement_status (fst (patch_movement after_deposit 1 comment_and_read)) = 200 \<and>
   map mv_farmerComment (stockMovements (snd (patch_movement after_deposit 1 comment_and_read))) =
     [Some ''short weight''] \<and>
   map mv_isCommentRead (stockMovements (snd (patch_movement after_deposit 1 comment_and_read))) =
     [Some True]"
  unfolding after_deposit_rows
  by (simp add: patch_movement_def patch_updates_def update_movements_def comment_and_read_def
      with_bool_isCommentRead_def patch_movement_status_def http_status_def)

subsection \<open>Users\<close>

text \<open>What the \<^verbatim>\<open>SET\<close> list of \<^verbatim>\<open>PUT /api/users/:id\<close> does to the row it updates.\<close>

lemma put_user_row:
  "fold apply_user_update (put_updates hash body) u =
     \<lparr>us_id = us_id u,
      us_username = (case ub_username body of None \<Rightarrow> us_username u
                     | Some s \<Rightarrow> if s = [] then us_username u else s),
      us_name = (case ub_name body of None \<Rightarrow> us_name u
                 | Some s \<Rightarrow> if s = [] then us_name u else s),
      us_role = (case ub_role body of None \<Rightarrow> us_role u
                 | Some s \<Rightarrow> if s = [] then us_role u else s),
      us_status = (case ub_status body of None \<Rightarrow> us_status u
                   | Some s \<Rightarrow> if s = [] then us_status u else s),
      us_password = (case ub_password body of None \<Rightarrow> us_password u
                     | Some s \<Rightarrow> if s = [] then us_password u else hash s),
      us_clientId = (if ub_role body = Some ''Agriculteur'' then ub_clientId body else None)\<rparr>"
  by (cases u) (simp add: put_updates_def split: option.splits)

text \<open>
  Claim C8 at the input where the handler departs from it. The body \<open>suspend_body\<close>
  holds a status and nothing else. The handler sets \<^verbatim>\<open>clientId\<close> in every update, to
  \<^verbatim>\<open>NULL\<close> unless the body holds the role \<^verbatim>\<open>Agriculteur\<close>: the farmer is suspended and
  loses the link to client 3, for every password hash function.
\<close>

theorem put_user_status_only_clears_clientId:
  "us_clientId farmer_user = Some 3 \<and>
   ub_clientId suspend_body = None \<and>
   put_user_status (fst (put_user hash two_users 2 suspend_body)) = 200 \<and>
   map us_clientId (users (snd (put_user hash two_users 2 suspend_body))) = [None, None] \<and>
   map us_status (users (snd (put_user hash two_users 2 suspend_body))) = [''Active'', ''Suspended'']"
  by (simp add: put_user_def put_updates_def update_users_def suspend_body_def two_users_def
      admin_user_def farmer_user_def without_password_def put_user_status_def http_status_def)

lemma find_by_id:
  "distinct (map us_id xs) \<Longrightarrow> u \<in> set xs \<Longrightarrow> find (\<lambda>v. us_id v = us_id u) xs = Some u"
  by (induction xs) (auto simp: rev_image_eqI)

text \<open>
  Claim C9. Let the user with the given id exist, the ids of the table being
  distinct. When the role of that user is \<^verbatim>\<open>Admin\<close>, the answer is the error of status
  403 and the database is unchanged, so the user is still in the table; the handler
  has no argument for the caller. When the role is another, the answer is the success
  of status 204 and the table no longer holds a user with that id.
\<close>

theorem delete_user_admin_forbidden:
  assumes "distinct (map us_id (users d))" and "u \<in> set (users d)" and "us_id u = userId"
  shows "(us_role u = ''Admin'' \<longrightarrow>
            delete_user d userId = (Inl CannotDeleteAdmin, d) \<and>
            delete_user_status (fst (delete_user d userId)) = 403 \<and>
            u \<in> set (users (snd (delete_user d userId)))) \<and>
         (us_role u \<noteq> ''Admin'' \<longrightarrow>
            fst (delete_user d userId) = Inr () \<and>
            delete_user_status (fst (delete_user d userId)) = 204 \<and>
            users (snd (delete_user d userId)) = filter (\<lambda>v. us_id v \<noteq> userId) (users d) \<and>
            (\<forall>v\<in>set (users (snd (delete_user d userId))). us_id v \<noteq> userId))"
proof -
  from find_by_id[OF assms(1,2)] assms(3)
  have "find (\<lambda>v. us_id v = userId) (users d) = Some u" by simp
  with assms(2) show ?thesis
    by (simp add: delete_user_def delete_user_status_def http_status_def)
qed

text \<open>Deleting the administrator is refused; deleting the farmer leaves the administrator.\<close>

theorem delete_user_admin_forbidden_witness:
  "distinct (map us_id (users two_users)) \<and>
   admin_user \<in> set (users two_users) \<and> us_id admin_user = 1 \<and> us_role admin_user = ''Admin'' \<and>
   delete_user two_users 1 = (Inl CannotDeleteAdmin, two_users) \<and>
   delete_user_status (fst (delete_user two_users 1)) = 403 \<and>
   farmer_user \<in> set (users two_users) \<and> us_id farmer_user = 2 \<and>
   us_role farmer_user \<noteq> ''Admin'' \<and>
   delete_user_status (fst (delete_user two_users 2)) = 204 \<and>
   users (snd (delete_user two_users 2)) = [admin_user]"
proof -
  have h: "distinct (map us_id (users two_users))"
    "admin_user \<in> set (users two_users)" "us_id admin_user = 1" "us_role admin_user = ''Admin''"
    "farmer_user \<in> set (users two_users)" "us_id farmer_user = 2" "us_role farmer_user \<noteq> ''Admin''"
    by (simp_all add: two_users_def admin_user_def farmer_user_def)
  from delete_user_admin_forbidden[OF h(1,2,3)] h(4)
  have a: "delete_user two_users 1 = (Inl CannotDeleteAdmin, two_users) \<and>
    delete_user_status (fst (delete_user two_users 1)) = 403" by blast
  from delete_user_admin_forbidden[OF h(1,5,6)] h(7)
  have b: "delete_user_status (fst (delete_user two_users 2)) = 204 \<and>
    users (snd (delete_user two_users 2)) = filter (\<lambda>v. us_id v \<noteq> 2) (users two_users)"
    by blast
  have "filter (\<lambda>v. us_id v \<noteq> 2) (users two_users) = [admin_user]"
    by (simp add: two_users_def admin_user_def farmer_user_def)
  with a b h show ?thesis by (simp add: delete_user_status_def http_status_def)
qed

end
